theory Spec2Isabelle
  imports Main
begin

section \<open>Data model (App.tsx, types of the outfit history)\<close>

text \<open>
  A JavaScript string is a \<^typ>\<open>string\<close>.  A value that may be \<^verbatim>\<open>null\<close> or
  \<^verbatim>\<open>undefined\<close> is an \<^typ>\<open>'a option\<close>.  A string is falsy when it is empty, and so
  is an absent value.
\<close>

definition falsy :: "string option \<Rightarrow> bool" where
  "falsy x = (case x of None \<Rightarrow> True | Some u \<Rightarrow> u = [])"

text \<open>\<^verbatim>\<open>xs[i]\<close> on an array: \<^verbatim>\<open>undefined\<close> out of range.\<close>

definition nth_opt :: "'a list \<Rightarrow> nat \<Rightarrow> 'a option" where
  "nth_opt xs i = (if i < length xs then Some (xs ! i) else None)"

text \<open>
  An object used as a dictionary from strings to strings is the list of its entries in
  insertion order, one entry per key.  (JavaScript lists index-like keys such as \<^verbatim>\<open>"7"\<close>
  before the others; no pose key is of that form.)  \<^verbatim>\<open>o[k]\<close> is \<^const>\<open>map_of\<close>,
  \<^verbatim>\<open>o[k] = v\<close> overwrites the entry where it stands or adds it at the end, and
  \<^verbatim>\<open>Object.values(o)\<close> lists the values in that order.
\<close>

fun obj_set :: "(string \<times> string) list \<Rightarrow> string \<Rightarrow> string \<Rightarrow> (string \<times> string) list" where
  "obj_set [] k v = [(k, v)]"
| "obj_set ((k', v') # kvs) k v =
     (if k' = k then (k, v) # kvs else (k', v') # obj_set kvs k v)"

definition obj_values :: "(string \<times> string) list \<Rightarrow> string list" where
  "obj_values kvs = map snd kvs"

definition obj_keys :: "(string \<times> string) list \<Rightarrow> string list" where
  "obj_keys kvs = map fst kvs"

text \<open>
  Modelled from the spec: \<^verbatim>\<open>types.ts\<close> is not among the sources.  A garment
  (\<^verbatim>\<open>WardrobeItem\<close>) has an identifier, a display name and a source image reference; a
  layer has an optional garment and its pose images.  The field \<^verbatim>\<open>id\<close> is written
  \<open>id'\<close>.
\<close>

record WardrobeItem =
  id' :: string
  name :: string
  url :: string

record OutfitLayer =
  garment :: "WardrobeItem option"
  poseImages :: "(string \<times> string) list"

datatype js_file = File string

definition POSE_INSTRUCTIONS :: "string list" where
  "POSE_INSTRUCTIONS =
    [''Classic headshot, looking at camera'',
     ''3/4 view, smiling'',
     ''Side profile, looking thoughtful'',
     ''Arms crossed, professional look'',
     ''Leaning forward, confident expression'',
     ''Looking over shoulder towards camera'',
     ''Walking towards camera, casual'',
     ''Full-length portrait, leaning against a wall, relaxed'',
     ''Candid laughing shot'',
     ''Sitting on a stool, professional'',
     ''Power pose, hands on hips'',
     ''Hands in pockets, relaxed stance'']"

text \<open>\<^verbatim>\<open>POSE_INSTRUCTIONS[i]\<close>: \<^verbatim>\<open>undefined\<close> when \<open>i\<close> is not an index of the list.\<close>

definition POSE_INSTRUCTIONS_at :: "int \<Rightarrow> string option" where
  "POSE_INSTRUCTIONS_at i =
     (if 0 \<le> i \<and> i < int (length POSE_INSTRUCTIONS) then Some (POSE_INSTRUCTIONS ! nat i)
      else None)"

text \<open>A value used as a property key is turned into a string.\<close>

definition prop_key :: "string option \<Rightarrow> string" where
  "prop_key k = (case k of None \<Rightarrow> ''undefined'' | Some x \<Rightarrow> x)"

definition poseKey :: "int \<Rightarrow> string" where
  "poseKey i = prop_key (POSE_INSTRUCTIONS_at i)"

text \<open>
  The state of the component.  \<open>currentOutfitIndex\<close> starts at 0 and is only ever
  incremented, or decremented after a test that it is positive: a natural number.
  \<open>currentPoseIndex\<close> is whatever index the pose selector passes: an integer.
\<close>

record app_state =
  modelImageUrl :: "string option"
  outfitHistory :: "OutfitLayer list"
  currentOutfitIndex :: nat
  isLoading :: bool
  loadingMessage :: string
  error :: "string option"
  currentPoseIndex :: int
  isSheetCollapsed :: bool
  wardrobe :: "WardrobeItem list"

text \<open>
  What App.tsx imports and the sources do not hold: the default wardrobe
  (\<^verbatim>\<open>wardrobe.ts\<close>) and \<^verbatim>\<open>getFriendlyErrorMessage\<close> (\<^verbatim>\<open>lib/utils\<close>) are parameters.
\<close>

datatype js_error = Error string | TypeError string

record env =
  defaultWardrobe :: "WardrobeItem list"
  getFriendlyErrorMessage :: "js_error \<Rightarrow> string \<Rightarrow> string"

definition initial :: "env \<Rightarrow> app_state" where
  "initial e =
     \<lparr>modelImageUrl = None, outfitHistory = [], currentOutfitIndex = 0, isLoading = False,
      loadingMessage = [], error = None, currentPoseIndex = 0, isSheetCollapsed = False,
      wardrobe = defaultWardrobe e\<rparr>"

section \<open>Asynchronous handlers\<close>

text \<open>
  The generation service is called at three places.  A handler either returns without
  calling it, or throws before calling it (its promise is rejected and the state stays),
  or sets some state, issues one request and waits.  When the request settles, the rest
  of the handler runs: it reads the values the handler captured when it was called
  (\<open>s\<close> below) and its functional updates \<^verbatim>\<open>prev => ...\<close> read the state of that
  moment (\<open>s'\<close> below).  An update that throws brings the application down: \<open>Inl\<close>.
\<close>

datatype request =
    GenerateVirtualTryOnImage string js_file
  | GeneratePoseVariation string "string option"
  | AdjustImage string string "js_file option"

type_synonym outcome = "js_error + string"

datatype handler =
    Return app_state
  | Rejected app_state js_error
  | Await app_state request "outcome \<Rightarrow> app_state \<Rightarrow> js_error + app_state"

text \<open>The \<^verbatim>\<open>finally\<close> block shared by the four handlers.\<close>

definition finally_block :: "app_state \<Rightarrow> app_state" where
  "finally_block s = s\<lparr>isLoading := False, loadingMessage := []\<rparr>"

definition displayImageUrl :: "app_state \<Rightarrow> string option" where
  "displayImageUrl s =
     (if length (outfitHistory s) = 0 then modelImageUrl s
      else case nth_opt (outfitHistory s) (currentOutfitIndex s) of
        None \<Rightarrow> modelImageUrl s
      | Some currentLayer \<Rightarrow>
          (case map_of (poseImages currentLayer) (poseKey (currentPoseIndex s)) of
             Some img \<Rightarrow> Some img
           | None \<Rightarrow> nth_opt (obj_values (poseImages currentLayer)) 0))"

definition handleModelFinalized :: "string \<Rightarrow> app_state \<Rightarrow> app_state" where
  "handleModelFinalized u s =
     s\<lparr>modelImageUrl := Some u,
       outfitHistory := [\<lparr>garment = None, poseImages = [(poseKey 0, u)]\<rparr>],
       currentOutfitIndex := 0\<rparr>"

definition handleStartOver :: "env \<Rightarrow> app_state \<Rightarrow> app_state" where
  "handleStartOver e s =
     s\<lparr>modelImageUrl := None, outfitHistory := [], currentOutfitIndex := 0,
       isLoading := False, loadingMessage := [], error := None, currentPoseIndex := 0,
       isSheetCollapsed := False, wardrobe := defaultWardrobe e\<rparr>"

text \<open>\<^verbatim>\<open>nextLayer && nextLayer.garment?.id === garmentInfo.id\<close>\<close>

definition nextLayerIs :: "WardrobeItem \<Rightarrow> app_state \<Rightarrow> bool" where
  "nextLayerIs garmentInfo s =
     (case nth_opt (outfitHistory s) (currentOutfitIndex s + 1) of
        None \<Rightarrow> False
      | Some nextLayer \<Rightarrow>
          (case garment nextLayer of None \<Rightarrow> False | Some g \<Rightarrow> id' g = id' garmentInfo))"

definition handleGarmentSelect :: "env \<Rightarrow> js_file \<Rightarrow> WardrobeItem \<Rightarrow> app_state \<Rightarrow> handler" where
  "handleGarmentSelect e garmentFile garmentInfo s =
     (if falsy (displayImageUrl s) \<or> isLoading s then Return s
      else if nextLayerIs garmentInfo s then
        Return (s\<lparr>currentOutfitIndex := currentOutfitIndex s + 1, currentPoseIndex := 0\<rparr>)
      else
        Await
          (s\<lparr>error := None, isLoading := True,
             loadingMessage := ''Applying '' @ name garmentInfo @ '' style...''\<rparr>)
          (GenerateVirtualTryOnImage (the (displayImageUrl s)) garmentFile)
          (\<lambda>r s'. Inr (finally_block
             (case r of
                Inr newImageUrl \<Rightarrow>
                  s'\<lparr>outfitHistory :=
                       take (currentOutfitIndex s + 1) (outfitHistory s') @
                       [\<lparr>garment = Some garmentInfo,
                         poseImages = [(poseKey (currentPoseIndex s), newImageUrl)]\<rparr>],
                     currentOutfitIndex := currentOutfitIndex s' + 1,
                     wardrobe :=
                       (if find (\<lambda>item. id' item = id' garmentInfo) (wardrobe s') \<noteq> None
                        then wardrobe s' else wardrobe s' @ [garmentInfo])\<rparr>
              | Inl err \<Rightarrow>
                  s'\<lparr>error := Some (getFriendlyErrorMessage e err ''Failed to apply style'')\<rparr>))))"

definition handlePoseSelect :: "env \<Rightarrow> int \<Rightarrow> app_state \<Rightarrow> handler" where
  "handlePoseSelect e newIndex s =
     (if isLoading s \<or> length (outfitHistory s) = 0 \<or> newIndex = currentPoseIndex s
      then Return s
      else case nth_opt (outfitHistory s) (currentOutfitIndex s) of
        None \<Rightarrow> Rejected s (TypeError ''Cannot read properties of undefined'')
      | Some currentLayer \<Rightarrow>
          if \<not> falsy (map_of (poseImages currentLayer) (poseKey newIndex))
          then Return (s\<lparr>currentPoseIndex := newIndex\<rparr>)
          else if falsy (nth_opt (obj_values (poseImages currentLayer)) 0) then Return s
          else
            Await
              (s\<lparr>error := None, isLoading := True, loadingMessage := ''Changing pose...'',
                 currentPoseIndex := newIndex\<rparr>)
              (GeneratePoseVariation (the (nth_opt (obj_values (poseImages currentLayer)) 0))
                 (POSE_INSTRUCTIONS_at newIndex))
              (\<lambda>r s'.
                 case r of
                   Inr newImageUrl \<Rightarrow>
                     (case nth_opt (outfitHistory s') (currentOutfitIndex s) of
                        None \<Rightarrow> Inl (TypeError ''Cannot read properties of undefined'')
                      | Some updatedLayer \<Rightarrow>
                          Inr (finally_block
                            (s'\<lparr>outfitHistory := (outfitHistory s')
                                 [currentOutfitIndex s :=
                                    updatedLayer\<lparr>poseImages :=
                                      obj_set (poseImages updatedLayer) (poseKey newIndex)
                                        newImageUrl\<rparr>]\<rparr>)))
                 | Inl err \<Rightarrow>
                     Inr (finally_block
                       (s'\<lparr>error :=
                             Some (getFriendlyErrorMessage e err ''Failed to change pose''),
                           currentPoseIndex := currentPoseIndex s\<rparr>))))"

definition handleImageAdjustment ::
  "env \<Rightarrow> string \<Rightarrow> js_file option \<Rightarrow> app_state \<Rightarrow> handler" where
  "handleImageAdjustment e prompt sceneImage s =
     (if falsy (displayImageUrl s) \<or> isLoading s then Return s
      else
        Await
          (s\<lparr>error := None, isLoading := True, loadingMessage := ''Adjusting image...''\<rparr>)
          (AdjustImage (the (displayImageUrl s)) prompt sceneImage)
          (\<lambda>r s'. Inr (finally_block
             (case r of
                Inr newImageUrl \<Rightarrow>
                  (case nth_opt (outfitHistory s) (currentOutfitIndex s) of
                     None \<Rightarrow>
                       s'\<lparr>error := Some (getFriendlyErrorMessage e
                             (TypeError ''Cannot read properties of undefined'')
                             ''Failed to adjust image'')\<rparr>
                   | Some currentLayer \<Rightarrow>
                       s'\<lparr>outfitHistory :=
                            take (currentOutfitIndex s + 1) (outfitHistory s') @
                            [\<lparr>garment = garment currentLayer,
                              poseImages = [(poseKey (currentPoseIndex s), newImageUrl)]\<rparr>],
                          currentOutfitIndex := currentOutfitIndex s' + 1\<rparr>)
              | Inl err \<Rightarrow>
                  s'\<lparr>error := Some (getFriendlyErrorMessage e err ''Failed to adjust image'')\<rparr>))))"

definition handleRegenerate :: "env \<Rightarrow> app_state \<Rightarrow> handler" where
  "handleRegenerate e s =
     (if isLoading s \<or> length (outfitHistory s) = 0 then Return s
      else case nth_opt (outfitHistory s) (currentOutfitIndex s) of
        None \<Rightarrow> Return s
      | Some currentLayer \<Rightarrow>
          if falsy (nth_opt (obj_values (poseImages currentLayer)) 0)
          then Return (s\<lparr>error := Some ''No base image available to regenerate from.''\<rparr>)
          else
            Await
              (s\<lparr>error := None, isLoading := True,
                 loadingMessage := ''Regenerating portrait...''\<rparr>)
              (GeneratePoseVariation (the (nth_opt (obj_values (poseImages currentLayer)) 0))
                 (POSE_INSTRUCTIONS_at (currentPoseIndex s)))
              (\<lambda>r s'.
                 case r of
                   Inr newImageUrl \<Rightarrow>
                     (case nth_opt (outfitHistory s') (currentOutfitIndex s) of
                        None \<Rightarrow> Inl (TypeError ''Cannot read properties of undefined'')
                      | Some updatedLayer \<Rightarrow>
                          Inr (finally_block
                            (s'\<lparr>outfitHistory := (outfitHistory s')
                                 [currentOutfitIndex s :=
                                    updatedLayer\<lparr>poseImages :=
                                      obj_set (poseImages updatedLayer)
                                        (poseKey (currentPoseIndex s)) newImageUrl\<rparr>]\<rparr>)))
                 | Inl err \<Rightarrow>
                     Inr (finally_block
                       (s'\<lparr>error :=
                             Some (getFriendlyErrorMessage e err
                               ''Failed to regenerate portrait'')\<rparr>))))"

definition handleUndo :: "app_state \<Rightarrow> app_state" where
  "handleUndo s =
     (if currentOutfitIndex s > 0 then s\<lparr>currentOutfitIndex := currentOutfitIndex s - 1\<rparr>
      else s)"

definition handleRedo :: "app_state \<Rightarrow> app_state" where
  "handleRedo s =
     (if int (currentOutfitIndex s) < int (length (outfitHistory s)) - 1
      then s\<lparr>currentOutfitIndex := currentOutfitIndex s + 1\<rparr>
      else s)"

definition canUndo :: "app_state \<Rightarrow> bool" where
  "canUndo s = (currentOutfitIndex s > 0)"

definition canRedo :: "app_state \<Rightarrow> bool" where
  "canRedo s = (int (currentOutfitIndex s) < int (length (outfitHistory s)) - 1)"

section \<open>Operations run to completion\<close>

text \<open>
  \<open>settle r h\<close> is the state once the handler is over, \<open>r\<close> being what the generation
  service answered if it was called.  No other event is handled while the request is
  pending, so the rest of the handler runs on the state the handler left.
\<close>

definition settle :: "outcome \<Rightarrow> handler \<Rightarrow> js_error + app_state" where
  "settle r h =
     (case h of
        Return s \<Rightarrow> Inr s
      | Rejected s err \<Rightarrow> Inr s
      | Await s1 req k \<Rightarrow> k r s1)"

datatype operation =
    ModelFinalized string
  | StartOver
  | GarmentSelect js_file WardrobeItem
  | PoseSelect int
  | ImageAdjustment string "js_file option"
  | Regenerate
  | Undo
  | Redo

fun dispatch :: "env \<Rightarrow> operation \<Rightarrow> app_state \<Rightarrow> handler" where
  "dispatch e (ModelFinalized u) s = Return (handleModelFinalized u s)"
| "dispatch e StartOver s = Return (handleStartOver e s)"
| "dispatch e (GarmentSelect garmentFile garmentInfo) s =
     handleGarmentSelect e garmentFile garmentInfo s"
| "dispatch e (PoseSelect newIndex) s = handlePoseSelect e newIndex s"
| "dispatch e (ImageAdjustment prompt sceneImage) s = handleImageAdjustment e prompt sceneImage s"
| "dispatch e Regenerate s = handleRegenerate e s"
| "dispatch e Undo s = Return (handleUndo s)"
| "dispatch e Redo s = Return (handleRedo s)"

text \<open>A session: operations one after the other, each with the answer of the service.\<close>

fun run :: "env \<Rightarrow> (operation \<times> outcome) list \<Rightarrow> app_state \<Rightarrow> js_error + app_state" where
  "run e [] s = Inr s"
| "run e ((op, r) # rest) s =
     (case settle r (dispatch e op s) of
        Inl err \<Rightarrow> Inl err
      | Inr s' \<Rightarrow> run e rest s')"

section \<open>The answer of the generation service (geminiService.ts)\<close>

text \<open>
  The parts of a \<^verbatim>\<open>GenerateContentResponse\<close> of the service's library that
  \<^verbatim>\<open>handleApiResponse\<close> reads; every field is optional there.  \<open>responseText\<close> is
  the accessor \<^verbatim>\<open>response.text\<close>.
\<close>

record inline_data =
  mimeType :: "string option"
  data :: "string option"

record Part =
  inlineData :: "inline_data option"
  partText :: "string option"

record Content =
  parts :: "Part list option"

record Candidate =
  content :: "Content option"
  finishReason :: "string option"

record PromptFeedback =
  blockReason :: "string option"
  blockReasonMessage :: "string option"

record GenerateContentResponse =
  promptFeedback :: "PromptFeedback option"
  candidates :: "Candidate list option"
  responseText :: "string option"

text \<open>The three places where \<^verbatim>\<open>handleApiResponse\<close> throws, each with its message.\<close>

datatype api_failure =
    RequestBlocked string
  | StoppedUnexpectedly string
  | NoImage string

text \<open>A value inside a template literal.\<close>

definition to_string :: "string option \<Rightarrow> string" where
  "to_string x = (case x of None \<Rightarrow> ''undefined'' | Some v \<Rightarrow> v)"

text \<open>\<^verbatim>\<open>trim\<close>, on the white space of ASCII.\<close>

definition is_space :: "char \<Rightarrow> bool" where
  "is_space c = (c \<in> set [CHR 0x09, CHR 0x0A, CHR 0x0B, CHR 0x0C, CHR 0x0D, CHR 0x20])"

definition trim :: "string \<Rightarrow> string" where
  "trim s = rev (dropWhile is_space (rev (dropWhile is_space s)))"

text \<open>\<^verbatim>\<open>response.promptFeedback?.blockReason\<close>\<close>

definition blockReasonOf :: "GenerateContentResponse \<Rightarrow> string option" where
  "blockReasonOf response =
     (case promptFeedback response of None \<Rightarrow> None | Some pf \<Rightarrow> blockReason pf)"

text \<open>\<^verbatim>\<open>candidate.content?.parts?.find(part => part.inlineData)\<close>\<close>

definition imagePartOf :: "Candidate \<Rightarrow> Part option" where
  "imagePartOf candidate =
     (case content candidate of
        None \<Rightarrow> None
      | Some c \<Rightarrow>
          (case parts c of
             None \<Rightarrow> None
           | Some ps \<Rightarrow> find (\<lambda>part. inlineData part \<noteq> None) ps))"

text \<open>The loop over the candidates: the first image part of the first candidate that has one.\<close>

fun firstImage :: "Candidate list \<Rightarrow> inline_data option" where
  "firstImage [] = None"
| "firstImage (candidate # rest) =
     (case imagePartOf candidate of
        None \<Rightarrow> firstImage rest
      | Some imagePart \<Rightarrow>
          (case inlineData imagePart of
             None \<Rightarrow> firstImage rest
           | Some d \<Rightarrow> Some d))"

text \<open>\<^verbatim>\<open>response.candidates?.[0]?.finishReason\<close>\<close>

definition finishReasonOf :: "GenerateContentResponse \<Rightarrow> string option" where
  "finishReasonOf response =
     (case candidates response of
        None \<Rightarrow> None
      | Some cs \<Rightarrow> (case nth_opt cs 0 of None \<Rightarrow> None | Some c \<Rightarrow> finishReason c))"

definition handleApiResponse :: "GenerateContentResponse \<Rightarrow> api_failure + string" where
  "handleApiResponse response =
     (if \<not> falsy (blockReasonOf response) then
        Inl (RequestBlocked
          (''Request was blocked. Reason: '' @ to_string (blockReasonOf response) @ ''. '' @
           (case promptFeedback response of
              None \<Rightarrow> []
            | Some pf \<Rightarrow>
                if falsy (blockReasonMessage pf) then []
                else to_string (blockReasonMessage pf))))
      else
        case firstImage (case candidates response of None \<Rightarrow> [] | Some cs \<Rightarrow> cs) of
          Some d \<Rightarrow> Inr (''data:'' @ to_string (mimeType d) @ '';base64,'' @ to_string (data d))
        | None \<Rightarrow>
            if \<not> falsy (finishReasonOf response) \<and> finishReasonOf response \<noteq> Some ''STOP''
            then
              Inl (StoppedUnexpectedly
                (''Image generation stopped unexpectedly. Reason: '' @
                 to_string (finishReasonOf response) @
                 ''. This often relates to safety settings.''))
            else
              Inl (NoImage
                (''The AI model did not return an image. '' @
                 (if \<not> falsy (map_option trim (responseText response))
                  then ''The model responded with text: '' @ [CHR 0x22] @
                       to_string (map_option trim (responseText response)) @ [CHR 0x22]
                  else ''This can happen due to safety filters or if the request is too complex. Please try a different image.''))))"

text \<open>The conditions of the contract, in the words of the specification.\<close>

definition blocked :: "GenerateContentResponse \<Rightarrow> bool" where
  "blocked response = (\<not> falsy (blockReasonOf response))"

definition containsImage :: "GenerateContentResponse \<Rightarrow> bool" where
  "containsImage response =
     list_ex (\<lambda>candidate.
        case content candidate of
          None \<Rightarrow> False
        | Some c \<Rightarrow>
            (case parts c of
               None \<Rightarrow> False
             | Some ps \<Rightarrow> list_ex (\<lambda>part. inlineData part \<noteq> None) ps))
       (case candidates response of None \<Rightarrow> [] | Some cs \<Rightarrow> cs)"

definition halted :: "GenerateContentResponse \<Rightarrow> bool" where
  "halted response =
     (\<not> falsy (finishReasonOf response) \<and> finishReasonOf response \<noteq> Some ''STOP'')"

section \<open>Invariant of a session and example states\<close>


definition atTip :: "app_state \<Rightarrow> bool" where
  "atTip s = (currentOutfitIndex s + 1 = length (outfitHistory s))"

fun isEdit :: "operation \<Rightarrow> bool" where
  "isEdit (GarmentSelect garmentFile garmentInfo) = True"
| "isEdit (ImageAdjustment prompt sceneImage) = True"
| "isEdit _ = False"

definition countId :: "string \<Rightarrow> WardrobeItem list \<Rightarrow> nat" where
  "countId g items = length (filter (\<lambda>item. id' item = g) items)"

definition env0 :: env where
  "env0 = \<lparr>defaultWardrobe = [], getFriendlyErrorMessage = (\<lambda>err context. context)\<rparr>"

definition shirt :: WardrobeItem where
  "shirt = \<lparr>id' = ''shirt'', name = ''Shirt'', url = ''/shirt.png''\<rparr>"

definition hat :: WardrobeItem where
  "hat = \<lparr>id' = ''hat'', name = ''Hat'', url = ''/hat.png''\<rparr>"

definition baseLayer :: OutfitLayer where
  "baseLayer = \<lparr>garment = None, poseImages = [(poseKey 0, ''data:a'')]\<rparr>"

definition shirtLayer :: OutfitLayer where
  "shirtLayer = \<lparr>garment = Some shirt, poseImages = [(poseKey 0, ''data:b'')]\<rparr>"

definition hatLayer :: OutfitLayer where
  "hatLayer = \<lparr>garment = Some hat, poseImages = [(poseKey 0, ''data:c'')]\<rparr>"

text \<open>A session with three layers, back at the first one.\<close>

definition threeLayers :: app_state where
  "threeLayers =
     \<lparr>modelImageUrl = Some ''data:a'', outfitHistory = [baseLayer, shirtLayer, hatLayer],
      currentOutfitIndex = 0, isLoading = False, loadingMessage = [], error = None,
      currentPoseIndex = 0, isSheetCollapsed = False, wardrobe = [shirt, hat]\<rparr>"

text \<open>The same session while an adjustment is waiting for the service.\<close>

definition threeLayersBusy :: app_state where
  "threeLayersBusy = threeLayers\<lparr>isLoading := True, loadingMessage := ''Adjusting image...''\<rparr>"

text \<open>The state a handler leaves while its request is pending.\<close>

fun pending :: "handler \<Rightarrow> app_state option" where
  "pending (Await s1 req k) = Some s1"
| "pending _ = None"

text \<open>
  The rest of a handler when its request settles in the state \<open>s'\<close>, which is the state
  the handler left unless another event was handled since.
\<close>

fun resume :: "outcome \<Rightarrow> handler \<Rightarrow> app_state \<Rightarrow> js_error + app_state" where
  "resume r (Await s1 req k) s' = k r s'"
| "resume r (Return s) s' = Inr s'"
| "resume r (Rejected s err) s' = Inr s'"

text \<open>An answer that is blocked and yet carries an image.\<close>

definition blockedWithImage :: GenerateContentResponse where
  "blockedWithImage =
     \<lparr>promptFeedback = Some \<lparr>blockReason = Some ''SAFETY'', blockReasonMessage = None\<rparr>,
      candidates = Some
        [\<lparr>content = Some \<lparr>parts = Some
            [\<lparr>inlineData = Some \<lparr>mimeType = Some ''image/png'', data = Some ''AAAA''\<rparr>,
              partText = None\<rparr>]\<rparr>,
          finishReason = Some ''STOP''\<rparr>],
      responseText = None\<rparr>"

definition garmentFile0 :: js_file where
  "garmentFile0 = File ''garment.png''"

text \<open>The answer paired with an operation that does not call the service is not read.\<close>

definition unused :: outcome where
  "unused = Inr []"

definition threeLayersSession :: "(operation \<times> outcome) list" where
  "threeLayersSession =
     [(ModelFinalized ''data:a'', unused),
      (GarmentSelect garmentFile0 shirt, Inr ''data:b''),
      (GarmentSelect garmentFile0 hat, Inr ''data:c''),
      (Undo, unused), (Undo, unused)]"

text \<open>A session that applies the shirt, goes back, applies the hat, goes back and applies
  the shirt again; and the state it ends in.\<close>

definition twoBranches :: "(operation \<times> outcome) list" where
  "twoBranches =
     [(ModelFinalized ''data:a'', unused),
      (GarmentSelect garmentFile0 shirt, Inr ''data:b''),
      (Undo, unused),
      (GarmentSelect garmentFile0 hat, Inr ''data:c''),
      (Undo, unused),
      (GarmentSelect garmentFile0 shirt, Inr ''data:d'')]"

definition twoBranchesEnd :: app_state where
  "twoBranchesEnd =
     \<lparr>modelImageUrl = Some ''data:a'',
      outfitHistory =
        [baseLayer, \<lparr>garment = Some shirt, poseImages = [(poseKey 0, ''data:d'')]\<rparr>],
      currentOutfitIndex = 1, isLoading = False, loadingMessage = [], error = None,
      currentPoseIndex = 0, isSheetCollapsed = False, wardrobe = [shirt, hat]\<rparr>"

text \<open>A session that ends on the second pose, and its state.\<close>

definition posedSession :: "(operation \<times> outcome) list" where
  "posedSession = [(ModelFinalized ''data:a'', unused), (PoseSelect 1, Inr ''data:p'')]"

definition posedState :: app_state where
  "posedState =
     \<lparr>modelImageUrl = Some ''data:a'',
      outfitHistory =
        [\<lparr>garment = None, poseImages = [(poseKey 0, ''data:a''), (poseKey 1, ''data:p'')]\<rparr>],
      currentOutfitIndex = 0, isLoading = False, loadingMessage = [], error = None,
      currentPoseIndex = 1, isSheetCollapsed = False, wardrobe = []\<rparr>"

text \<open>Two edits after the base image, and the state they lead to.\<close>

definition twoEdits :: "(operation \<times> outcome) list" where
  "twoEdits =
     [(GarmentSelect garmentFile0 shirt, Inr ''data:b''),
      (ImageAdjustment ''Make the lighting brighter and more vibrant.'' None, Inr ''data:c'')]"

definition twoEditsEnd :: app_state where
  "twoEditsEnd =
     \<lparr>modelImageUrl = Some ''data:a'',
      outfitHistory =
        [baseLayer, shirtLayer,
         \<lparr>garment = Some shirt, poseImages = [(poseKey 0, ''data:c'')]\<rparr>],
      currentOutfitIndex = 2, isLoading = False, loadingMessage = [], error = None,
      currentPoseIndex = 0, isSheetCollapsed = False, wardrobe = [shirt]\<rparr>"

text \<open>Answers of the service: one with an image, one that stopped, one with text only.\<close>

definition imageResponse :: GenerateContentResponse where
  "imageResponse =
     \<lparr>promptFeedback = None,
      candidates = Some
        [\<lparr>content = Some \<lparr>parts = Some [\<lparr>inlineData = None, partText = Some ''Here it is''\<rparr>]\<rparr>,
          finishReason = Some ''STOP''\<rparr>,
         \<lparr>content = Some \<lparr>parts = Some
            [\<lparr>inlineData = Some \<lparr>mimeType = Some ''image/png'', data = Some ''AAAA''\<rparr>,
              partText = None\<rparr>]\<rparr>,
          finishReason = Some ''STOP''\<rparr>],
      responseText = Some ''Here it is''\<rparr>"

definition stoppedResponse :: GenerateContentResponse where
  "stoppedResponse =
     \<lparr>promptFeedback = None,
      candidates = Some [\<lparr>content = None, finishReason = Some ''SAFETY''\<rparr>],
      responseText = None\<rparr>"

definition textResponse :: GenerateContentResponse where
  "textResponse =
     \<lparr>promptFeedback = None,
      candidates = Some
        [\<lparr>content = Some \<lparr>parts = Some [\<lparr>inlineData = None, partText = Some '' No. ''\<rparr>]\<rparr>,
          finishReason = Some ''STOP''\<rparr>],
      responseText = Some '' No. ''\<rparr>"


section \<open>Arrays and objects\<close>

lemmas example_defs =
  env0_def shirt_def hat_def baseLayer_def shirtLayer_def hatLayer_def threeLayers_def
  threeLayersBusy_def garmentFile0_def unused_def threeLayersSession_def twoBranches_def
  twoBranchesEnd_def posedSession_def posedState_def twoEdits_def twoEditsEnd_def initial_def

lemmas pose_defs = poseKey_def prop_key_def POSE_INSTRUCTIONS_at_def POSE_INSTRUCTIONS_def

lemmas handler_defs =
  handleModelFinalized_def handleStartOver_def handleGarmentSelect_def handlePoseSelect_def
  handleImageAdjustment_def handleRegenerate_def handleUndo_def handleRedo_def
  displayImageUrl_def nextLayerIs_def finally_block_def settle_def falsy_def nth_opt_def
  obj_values_def

lemma nth_opt_in_range: "i < length xs \<Longrightarrow> nth_opt xs i = Some (xs ! i)"
  by (simp add: nth_opt_def)

lemma map_of_obj_set: "map_of (obj_set kvs k v) = (map_of kvs)(k \<mapsto> v)"
  by (induction kvs k v rule: obj_set.induct) (auto simp: fun_eq_iff)

lemma obj_keys_obj_set:
  "obj_keys (obj_set kvs k v) = (if k \<in> set (obj_keys kvs) then obj_keys kvs else obj_keys kvs @ [k])"
  by (induction kvs k v rule: obj_set.induct) (auto simp: obj_keys_def)

lemma first_value: "kvs \<noteq> [] \<Longrightarrow> nth_opt (obj_values kvs) 0 = Some (snd (hd kvs))"
  by (cases kvs) (auto simp: nth_opt_def obj_values_def)

lemma settle_Return [simp]: "settle r (Return s) = Inr s"
  by (simp add: settle_def)

section \<open>The displayed image\<close>

text \<open>
  Claim C6.  When the current layer has at least one pose image, \<open>displayImageUrl\<close> is
  defined: it is the image stored under the current pose key when the layer has that key,
  and the first image of the layer otherwise.
\<close>

theorem displayImageUrl_defined:
  assumes "currentOutfitIndex s < length (outfitHistory s)"
    and "poseImages (outfitHistory s ! currentOutfitIndex s) \<noteq> []"
  shows "displayImageUrl s =
    Some (case map_of (poseImages (outfitHistory s ! currentOutfitIndex s))
                 (poseKey (currentPoseIndex s)) of
            Some img \<Rightarrow> img
          | None \<Rightarrow> snd (hd (poseImages (outfitHistory s ! currentOutfitIndex s))))"
  using assms
  by (auto simp: displayImageUrl_def nth_opt_in_range first_value split: option.splits)

text \<open>On the second layer of three, with the fourth pose selected and not yet generated,
  the image of the first pose is shown.\<close>

theorem displayImageUrl_defined_witness:
  "currentOutfitIndex (threeLayers\<lparr>currentOutfitIndex := 1, currentPoseIndex := 3\<rparr>)
     < length (outfitHistory (threeLayers\<lparr>currentOutfitIndex := 1, currentPoseIndex := 3\<rparr>))
   \<and> map_of (poseImages shirtLayer) (poseKey 3) = None
   \<and> displayImageUrl (threeLayers\<lparr>currentOutfitIndex := 1, currentPoseIndex := 3\<rparr>)
     = Some ''data:b''"
proof -
  let ?s = "threeLayers\<lparr>currentOutfitIndex := 1, currentPoseIndex := 3\<rparr>"
  have inside: "currentOutfitIndex ?s < length (outfitHistory ?s)"
    by (simp add: example_defs)
  have layer: "outfitHistory ?s ! currentOutfitIndex ?s = shirtLayer"
    by (simp add: example_defs)
  have images: "poseImages (outfitHistory ?s ! currentOutfitIndex ?s) \<noteq> []"
    by (simp add: layer) (simp add: example_defs)
  have absent: "map_of (poseImages shirtLayer) (poseKey 3) = None"
    by (simp add: example_defs pose_defs)
  have first: "snd (hd (poseImages shirtLayer)) = ''data:b''"
    by (simp add: example_defs)
  have pose: "currentPoseIndex ?s = 3"
    by simp
  from displayImageUrl_defined [OF inside images]
  have "displayImageUrl ?s = Some ''data:b''"
    unfolding layer pose by (simp add: absent first)
  with inside absent show ?thesis by blast
qed

section \<open>Single operations\<close>

text \<open>
  Claim C1.  With a history of \<open>N\<close> layers and the current index \<open>k < N - 1\<close>, an
  adjustment that is accepted (an image is displayed, nothing is loading) and whose request
  yields an image leaves the layers \<open>0..k\<close> followed by one new layer, which has the
  garment of layer \<open>k\<close> and the produced image under the current pose key as its only pose
  image; the history has \<open>k + 2\<close> layers and the current index is \<open>k + 1\<close>.
\<close>

theorem handleImageAdjustment_truncates:
  assumes "\<not> falsy (displayImageUrl s)" and "\<not> isLoading s"
    and "int (currentOutfitIndex s) < int (length (outfitHistory s)) - 1"
  shows "\<exists>s'. settle (Inr newImageUrl) (handleImageAdjustment e prompt sceneImage s) = Inr s'
     \<and> outfitHistory s' =
         take (currentOutfitIndex s + 1) (outfitHistory s) @
         [\<lparr>garment = garment (outfitHistory s ! currentOutfitIndex s),
           poseImages = [(poseKey (currentPoseIndex s), newImageUrl)]\<rparr>]
     \<and> length (outfitHistory s') = currentOutfitIndex s + 2
     \<and> currentOutfitIndex s' = currentOutfitIndex s + 1"
  using assms
  by (simp add: handleImageAdjustment_def settle_def finally_block_def nth_opt_def)

text \<open>From the first of three layers: the two later layers go, the adjusted one comes.\<close>

theorem handleImageAdjustment_truncates_witness:
  "\<not> falsy (displayImageUrl threeLayers) \<and> \<not> isLoading threeLayers
   \<and> int (currentOutfitIndex threeLayers) < int (length (outfitHistory threeLayers)) - 1
   \<and> (\<exists>s'. settle (Inr ''data:n'') (handleImageAdjustment env0 ''Brighter'' None threeLayers)
          = Inr s'
        \<and> outfitHistory s' =
            [baseLayer, \<lparr>garment = None, poseImages = [(poseKey 0, ''data:n'')]\<rparr>]
        \<and> length (outfitHistory s') = 2
        \<and> currentOutfitIndex s' = 1)"
proof -
  have shown: "\<not> falsy (displayImageUrl threeLayers)"
    by (simp add: example_defs handler_defs pose_defs)
  have idle: "\<not> isLoading threeLayers"
    by (simp add: example_defs)
  have below: "int (currentOutfitIndex threeLayers) < int (length (outfitHistory threeLayers)) - 1"
    by (simp add: example_defs)
  have vals: "outfitHistory threeLayers = [baseLayer, shirtLayer, hatLayer]"
    "garment baseLayer = None"
    "currentPoseIndex threeLayers = 0" "currentOutfitIndex threeLayers = 0"
    by (simp_all add: example_defs)
  from handleImageAdjustment_truncates [OF shown idle below,
      where newImageUrl = "''data:n''" and e = env0 and prompt = "''Brighter''"
        and sceneImage = None]
  have "\<exists>s'. settle (Inr ''data:n'') (handleImageAdjustment env0 ''Brighter'' None threeLayers)
          = Inr s'
        \<and> outfitHistory s' =
            [baseLayer, \<lparr>garment = None, poseImages = [(poseKey 0, ''data:n'')]\<rparr>]
        \<and> length (outfitHistory s') = 2
        \<and> currentOutfitIndex s' = 1"
    by (simp add: vals numeral_2_eq_2)
  with shown idle below show ?thesis by blast
qed

text \<open>
  Claim C2, as the code has it.  In a state that is not loading and displays an image, if
  the layer after the current one exists and its garment has the identifier of the garment
  applied, \<open>handleGarmentSelect\<close> returns without calling the service: the current index
  is one more, the pose index is 0, the history and the wardrobe are the same.
\<close>

theorem handleGarmentSelect_reuse:
  assumes "\<not> falsy (displayImageUrl s)" and "\<not> isLoading s"
    and "currentOutfitIndex s + 1 < length (outfitHistory s)"
    and "garment (outfitHistory s ! (currentOutfitIndex s + 1)) = Some g"
    and "id' g = id' garmentInfo"
  shows "\<exists>s'. handleGarmentSelect e garmentFile garmentInfo s = Return s'
     \<and> currentOutfitIndex s' = currentOutfitIndex s + 1
     \<and> currentPoseIndex s' = 0
     \<and> outfitHistory s' = outfitHistory s
     \<and> wardrobe s' = wardrobe s"
  using assms
  by (simp add: handleGarmentSelect_def nextLayerIs_def nth_opt_def)

theorem handleGarmentSelect_reuse_witness:
  "\<not> falsy (displayImageUrl threeLayers) \<and> \<not> isLoading threeLayers
   \<and> currentOutfitIndex threeLayers + 1 < length (outfitHistory threeLayers)
   \<and> garment (outfitHistory threeLayers ! (currentOutfitIndex threeLayers + 1)) = Some shirt
   \<and> (\<exists>s'. handleGarmentSelect env0 garmentFile0 shirt threeLayers = Return s'
        \<and> currentOutfitIndex s' = 1 \<and> currentPoseIndex s' = 0
        \<and> outfitHistory s' = [baseLayer, shirtLayer, hatLayer]
        \<and> wardrobe s' = [shirt, hat])"
proof -
  have shown: "\<not> falsy (displayImageUrl threeLayers)"
    by (simp add: example_defs handler_defs pose_defs)
  have idle: "\<not> isLoading threeLayers"
    by (simp add: example_defs)
  have next_exists: "currentOutfitIndex threeLayers + 1 < length (outfitHistory threeLayers)"
    by (simp add: example_defs)
  have next_garment:
    "garment (outfitHistory threeLayers ! (currentOutfitIndex threeLayers + 1)) = Some shirt"
    by (simp add: example_defs)
  have vals: "currentOutfitIndex threeLayers = 0"
    "outfitHistory threeLayers = [baseLayer, shirtLayer, hatLayer]"
    "wardrobe threeLayers = [shirt, hat]"
    by (simp_all add: example_defs)
  from handleGarmentSelect_reuse [OF shown idle next_exists next_garment refl,
      where e = env0 and garmentFile = garmentFile0]
  have "\<exists>s'. handleGarmentSelect env0 garmentFile0 shirt threeLayers = Return s'
        \<and> currentOutfitIndex s' = 1 \<and> currentPoseIndex s' = 0
        \<and> outfitHistory s' = [baseLayer, shirtLayer, hatLayer]
        \<and> wardrobe s' = [shirt, hat]"
    by (simp add: vals)
  with shown idle next_exists next_garment show ?thesis by blast
qed

text \<open>
  Claim C2 as stated fails while a request is pending.  \<open>threeLayersBusy\<close> is the state in
  which an adjustment started on \<open>threeLayers\<close> waits for the service; its next layer
  wears the shirt, and selecting the shirt there returns at the first test: the current
  index stays 0.
\<close>

theorem handleGarmentSelect_reuse_counterexample:
  "pending (handleImageAdjustment env0 ''Brighter'' None threeLayers) = Some threeLayersBusy
   \<and> currentOutfitIndex threeLayersBusy + 1 < length (outfitHistory threeLayersBusy)
   \<and> garment (outfitHistory threeLayersBusy ! (currentOutfitIndex threeLayersBusy + 1))
       = Some shirt
   \<and> handleGarmentSelect env0 garmentFile0 shirt threeLayersBusy = Return threeLayersBusy
   \<and> currentOutfitIndex threeLayersBusy = 0"
  by (simp add: example_defs handler_defs pose_defs)

text \<open>When the two handlers that write into the current layer call the service.\<close>

lemma handlePoseSelect_pending_iff:
  "pending (handlePoseSelect e q s) \<noteq> None \<longleftrightarrow>
     \<not> isLoading s \<and> outfitHistory s \<noteq> [] \<and> q \<noteq> currentPoseIndex s
     \<and> currentOutfitIndex s < length (outfitHistory s)
     \<and> falsy (map_of (poseImages (outfitHistory s ! currentOutfitIndex s)) (poseKey q))
     \<and> \<not> falsy (nth_opt (obj_values (poseImages (outfitHistory s ! currentOutfitIndex s))) 0)"
  by (auto simp: handlePoseSelect_def nth_opt_def split: option.splits)

lemma handleRegenerate_pending_iff:
  "pending (handleRegenerate e s) \<noteq> None \<longleftrightarrow>
     \<not> isLoading s \<and> outfitHistory s \<noteq> []
     \<and> currentOutfitIndex s < length (outfitHistory s)
     \<and> \<not> falsy (nth_opt (obj_values (poseImages (outfitHistory s ! currentOutfitIndex s))) 0)"
  by (auto simp: handleRegenerate_def nth_opt_def split: option.splits)

text \<open>
  Claim C4.  When \<open>handlePoseSelect\<close> issues a request (the state while it waits, \<open>s1\<close>,
  already has the new pose index) and the request fails, the handler ends in a state with
  the pose index it started from, the same history, an error message, and not loading.
\<close>

theorem handlePoseSelect_rollback:
  assumes "pending (handlePoseSelect e q s) = Some s1"
  shows "currentPoseIndex s1 = q
     \<and> (\<exists>s'. settle (Inl err) (handlePoseSelect e q s) = Inr s'
          \<and> currentPoseIndex s' = currentPoseIndex s
          \<and> outfitHistory s' = outfitHistory s
          \<and> error s' = Some (getFriendlyErrorMessage e err ''Failed to change pose'')
          \<and> \<not> isLoading s')"
  using assms
  by (auto simp: handlePoseSelect_def settle_def finally_block_def
      split: if_splits option.splits)

theorem handlePoseSelect_rollback_witness:
  "pending (handlePoseSelect env0 1 threeLayers) =
     Some (threeLayers\<lparr>isLoading := True, loadingMessage := ''Changing pose...'',
             currentPoseIndex := 1\<rparr>)
   \<and> (\<exists>s'. settle (Inl (Error ''quota'')) (handlePoseSelect env0 1 threeLayers) = Inr s'
          \<and> currentPoseIndex s' = 0
          \<and> outfitHistory s' = [baseLayer, shirtLayer, hatLayer]
          \<and> error s' = Some ''Failed to change pose''
          \<and> \<not> isLoading s')"
proof -
  have waits: "pending (handlePoseSelect env0 1 threeLayers) =
     Some (threeLayers\<lparr>isLoading := True, loadingMessage := ''Changing pose...'',
             currentPoseIndex := 1\<rparr>)"
    by (simp add: example_defs handler_defs pose_defs)
  have vals: "currentPoseIndex threeLayers = 0"
    "outfitHistory threeLayers = [baseLayer, shirtLayer, hatLayer]"
    "getFriendlyErrorMessage env0 (Error ''quota'') ''Failed to change pose''
       = ''Failed to change pose''"
    by (simp_all add: example_defs)
  from handlePoseSelect_rollback [OF waits, where err = "Error ''quota''"]
  have "\<exists>s'. settle (Inl (Error ''quota'')) (handlePoseSelect env0 1 threeLayers) = Inr s'
          \<and> currentPoseIndex s' = 0
          \<and> outfitHistory s' = [baseLayer, shirtLayer, hatLayer]
          \<and> error s' = Some ''Failed to change pose''
          \<and> \<not> isLoading s'"
    by (simp add: vals)
  with waits show ?thesis by blast
qed

text \<open>
  Claim C10.  When \<open>handleRegenerate\<close> issues a request and it yields an image, the
  history keeps its length, every layer but the current one is the same, the current layer
  keeps its garment and every pose image but the one under the current pose key, which is
  now the produced image; the current index and the pose index are the same.
\<close>

theorem handleRegenerate_frame:
  assumes "pending (handleRegenerate e s) = Some s1"
  shows "\<exists>s'. settle (Inr newImageUrl) (handleRegenerate e s) = Inr s'
     \<and> length (outfitHistory s') = length (outfitHistory s)
     \<and> (\<forall>i. i < length (outfitHistory s) \<and> i \<noteq> currentOutfitIndex s \<longrightarrow>
            outfitHistory s' ! i = outfitHistory s ! i)
     \<and> (\<forall>key. key \<noteq> poseKey (currentPoseIndex s) \<longrightarrow>
            map_of (poseImages (outfitHistory s' ! currentOutfitIndex s)) key =
            map_of (poseImages (outfitHistory s ! currentOutfitIndex s)) key)
     \<and> map_of (poseImages (outfitHistory s' ! currentOutfitIndex s))
            (poseKey (currentPoseIndex s)) = Some newImageUrl
     \<and> garment (outfitHistory s' ! currentOutfitIndex s) =
         garment (outfitHistory s ! currentOutfitIndex s)
     \<and> currentOutfitIndex s' = currentOutfitIndex s
     \<and> currentPoseIndex s' = currentPoseIndex s"
  using assms
  by (auto simp: handleRegenerate_def settle_def finally_block_def nth_opt_def map_of_obj_set
      split: if_splits option.splits)

text \<open>On the session that ends on the second pose: the image of the second pose is
  replaced, the image of the first pose stays.\<close>

theorem handleRegenerate_frame_witness:
  "pending (handleRegenerate env0 posedState) =
     Some (posedState\<lparr>isLoading := True, loadingMessage := ''Regenerating portrait...''\<rparr>)
   \<and> (\<exists>s'. settle (Inr ''data:r'') (handleRegenerate env0 posedState) = Inr s'
        \<and> length (outfitHistory s') = 1
        \<and> map_of (poseImages (outfitHistory s' ! 0)) (poseKey 0) = Some ''data:a''
        \<and> map_of (poseImages (outfitHistory s' ! 0)) (poseKey 1) = Some ''data:r''
        \<and> garment (outfitHistory s' ! 0) = None
        \<and> currentOutfitIndex s' = 0
        \<and> currentPoseIndex s' = 1)"
proof -
  have waits: "pending (handleRegenerate env0 posedState) =
     Some (posedState\<lparr>isLoading := True, loadingMessage := ''Regenerating portrait...''\<rparr>)"
    by (simp add: example_defs handler_defs pose_defs)
  have vals: "currentPoseIndex posedState = 1" "currentOutfitIndex posedState = 0"
    "length (outfitHistory posedState) = 1"
    "garment (outfitHistory posedState ! 0) = None"
    "map_of (poseImages (outfitHistory posedState ! 0)) (poseKey 0) = Some ''data:a''"
    "poseKey 1 \<noteq> poseKey 0"
    "poseKey 0 \<noteq> poseKey 1"
    by (simp_all add: example_defs pose_defs)
  from handleRegenerate_frame [OF waits, where newImageUrl = "''data:r''"]
  obtain s' where s': "settle (Inr ''data:r'') (handleRegenerate env0 posedState) = Inr s'"
    and len: "length (outfitHistory s') = length (outfitHistory posedState)"
    and others: "\<forall>key. key \<noteq> poseKey (currentPoseIndex posedState) \<longrightarrow>
            map_of (poseImages (outfitHistory s' ! currentOutfitIndex posedState)) key =
            map_of (poseImages (outfitHistory posedState ! currentOutfitIndex posedState)) key"
    and new: "map_of (poseImages (outfitHistory s' ! currentOutfitIndex posedState))
            (poseKey (currentPoseIndex posedState)) = Some ''data:r''"
    and same_garment: "garment (outfitHistory s' ! currentOutfitIndex posedState) =
         garment (outfitHistory posedState ! currentOutfitIndex posedState)"
    and same_index: "currentOutfitIndex s' = currentOutfitIndex posedState"
    and same_pose: "currentPoseIndex s' = currentPoseIndex posedState"
    by blast
  from others have "map_of (poseImages (outfitHistory s' ! 0)) (poseKey 0) = Some ''data:a''"
    by (simp add: vals)
  with s' len new same_garment same_index same_pose
  have "\<exists>s'. settle (Inr ''data:r'') (handleRegenerate env0 posedState) = Inr s'
        \<and> length (outfitHistory s') = 1
        \<and> map_of (poseImages (outfitHistory s' ! 0)) (poseKey 0) = Some ''data:a''
        \<and> map_of (poseImages (outfitHistory s' ! 0)) (poseKey 1) = Some ''data:r''
        \<and> garment (outfitHistory s' ! 0) = None
        \<and> currentOutfitIndex s' = 0
        \<and> currentPoseIndex s' = 1"
    by (simp add: vals)
  with waits show ?thesis by blast
qed

section \<open>Sessions\<close>

subsection \<open>Every operation ends\<close>

lemma total_handleGarmentSelect: "\<exists>s'. settle r (handleGarmentSelect e f g s) = Inr s'"
  by (simp add: handleGarmentSelect_def settle_def)

lemma total_handleImageAdjustment: "\<exists>s'. settle r (handleImageAdjustment e p sc s) = Inr s'"
  by (simp add: handleImageAdjustment_def settle_def)

lemma total_handlePoseSelect: "\<exists>s'. settle r (handlePoseSelect e q s) = Inr s'"
  by (auto simp: handlePoseSelect_def settle_def split: option.splits sum.splits)

lemma total_handleRegenerate: "\<exists>s'. settle r (handleRegenerate e s) = Inr s'"
  by (auto simp: handleRegenerate_def settle_def split: option.splits sum.splits)

lemma total_step: "\<exists>s'. settle r (dispatch e op s) = Inr s'"
  by (cases op)
    (simp_all add: total_handleGarmentSelect total_handleImageAdjustment
      total_handlePoseSelect total_handleRegenerate)

lemma total_run: "\<exists>s'. run e evs s = Inr s'"
proof (induction evs arbitrary: s)
  case Nil
  show ?case by simp
next
  case (Cons ev evs)
  obtain op r where ev: "ev = (op, r)" by (cases ev)
  obtain s1 where "settle r (dispatch e op s) = Inr s1"
    using total_step by blast
  with Cons.IH [of s1] show ?case by (simp add: ev)
qed

lemma run_Cons_Inr:
  assumes "run e ((op, r) # evs) s = Inr s'"
  obtains s1 where "settle r (dispatch e op s) = Inr s1" and "run e evs s1 = Inr s'"
  using assms by (auto split: sum.splits)

subsection \<open>The invariant\<close>




















subsection \<open>Undo and redo at the tip\<close>

lemma atTip_handleGarmentSelect:
  assumes "atTip s" and "settle r (handleGarmentSelect e f g s) = Inr s'"
  shows "atTip s'"
  using assms
  by (auto simp: handleGarmentSelect_def settle_def finally_block_def atTip_def
      nextLayerIs_def nth_opt_def split: if_splits sum.splits)

lemma atTip_handleImageAdjustment:
  assumes "atTip s" and "settle r (handleImageAdjustment e p sc s) = Inr s'"
  shows "atTip s'"
  using assms
  by (auto simp: handleImageAdjustment_def settle_def finally_block_def atTip_def
      nth_opt_def split: if_splits sum.splits)

lemma atTip_edit:
  assumes "atTip s" and "isEdit op" and "settle r (dispatch e op s) = Inr s'"
  shows "atTip s'"
  using assms
  by (cases op) (auto dest: atTip_handleGarmentSelect atTip_handleImageAdjustment)

lemma atTip_run:
  assumes "atTip s" and "list_all (\<lambda>ev. isEdit (fst ev)) evs" and "run e evs s = Inr s'"
  shows "atTip s'"
  using assms
proof (induction evs arbitrary: s)
  case Nil
  then show ?case by simp
next
  case (Cons ev evs)
  obtain op r where ev: "ev = (op, r)" by (cases ev)
  from Cons.prems(3) obtain s1 where s1: "settle r (dispatch e op s) = Inr s1"
    and rest: "run e evs s1 = Inr s'"
    unfolding ev by (rule run_Cons_Inr)
  from Cons.prems(2) have "isEdit op" and edits: "list_all (\<lambda>ev. isEdit (fst ev)) evs"
    by (simp_all add: ev)
  from atTip_edit [OF Cons.prems(1) this(1) s1] have "atTip s1" .
  from Cons.IH [OF this edits rest] show ?case .
qed

lemma handleUndo_canUndo: "\<not> canUndo s \<Longrightarrow> handleUndo s = s"
  by (simp add: canUndo_def handleUndo_def)

lemma handleRedo_canRedo: "\<not> canRedo s \<Longrightarrow> handleRedo s = s"
  by (simp add: canRedo_def handleRedo_def)

lemma undo_redo_atTip:
  assumes "atTip s"
  shows "handleRedo (handleUndo s) = s"
  using assms
  by (cases "currentOutfitIndex s") (auto simp: atTip_def handleRedo_def handleUndo_def)

text \<open>
  Claim C3.  Start where the current index is the last index of the history (as after
  \<open>handleModelFinalized\<close>) and run any sequence of garment selections and image
  adjustments.  Then undo followed by redo gives back the state before the undo: the same
  history and current index, and every other field too.
\<close>

theorem undo_redo_roundtrip:
  assumes "currentOutfitIndex s0 + 1 = length (outfitHistory s0)"
    and "list_all (\<lambda>ev. isEdit (fst ev)) evs"
    and "run e evs s0 = Inr s"
  shows "run e [(Undo, ru), (Redo, rr)] s = Inr s"
proof -
  from assms(1) have "atTip s0" by (simp add: atTip_def)
  from atTip_run [OF this assms(2,3)] have "atTip s" .
  then show ?thesis by (simp add: undo_redo_atTip)
qed

theorem undo_redo_roundtrip_witness:
  "currentOutfitIndex (handleModelFinalized ''data:a'' (initial env0)) + 1 =
     length (outfitHistory (handleModelFinalized ''data:a'' (initial env0)))
   \<and> list_all (\<lambda>ev. isEdit (fst ev)) twoEdits
   \<and> run env0 twoEdits (handleModelFinalized ''data:a'' (initial env0)) = Inr twoEditsEnd
   \<and> run env0 [(Undo, unused)] twoEditsEnd = Inr (twoEditsEnd\<lparr>currentOutfitIndex := 1\<rparr>)
   \<and> run env0 [(Undo, unused), (Redo, unused)] twoEditsEnd = Inr twoEditsEnd"
proof -
  have tip: "currentOutfitIndex (handleModelFinalized ''data:a'' (initial env0)) + 1 =
     length (outfitHistory (handleModelFinalized ''data:a'' (initial env0)))"
    by (simp add: handleModelFinalized_def)
  have edits: "list_all (\<lambda>ev. isEdit (fst ev)) twoEdits"
    by (simp add: twoEdits_def)
  have reached: "run env0 twoEdits (handleModelFinalized ''data:a'' (initial env0)) = Inr twoEditsEnd"
    by (simp add: example_defs handler_defs pose_defs)
  have undone: "run env0 [(Undo, unused)] twoEditsEnd = Inr (twoEditsEnd\<lparr>currentOutfitIndex := 1\<rparr>)"
    by (simp add: twoEditsEnd_def handleUndo_def)
  from undo_redo_roundtrip [OF tip edits reached, where ru = unused and rr = unused]
    tip edits reached undone
  show ?thesis by blast
qed

subsection \<open>The wardrobe\<close>

lemma find_None_count: "find (\<lambda>item. id' item = g) items = None \<longleftrightarrow> countId g items = 0"
  by (auto simp: find_None_iff countId_def filter_empty_conv)

lemma countId_append: "countId g (xs @ [x]) = countId g xs + (if id' x = g then 1 else 0)"
  by (simp add: countId_def)

lemma count_handleGarmentSelect:
  assumes "countId g (wardrobe s) \<le> 1" and "settle r (handleGarmentSelect e f item s) = Inr s'"
  shows "countId g (wardrobe s') \<le> 1"
  using assms
  by (auto simp: handleGarmentSelect_def settle_def finally_block_def find_None_count
      countId_append split: if_splits sum.splits)

lemma wardrobe_handleImageAdjustment:
  "settle r (handleImageAdjustment e p sc s) = Inr s' \<Longrightarrow> wardrobe s' = wardrobe s"
  by (auto simp: handleImageAdjustment_def settle_def finally_block_def
      split: if_splits sum.splits option.splits)

lemma wardrobe_handlePoseSelect:
  "settle r (handlePoseSelect e q s) = Inr s' \<Longrightarrow> wardrobe s' = wardrobe s"
  by (auto simp: handlePoseSelect_def settle_def finally_block_def
      split: if_splits sum.splits option.splits)

lemma wardrobe_handleRegenerate:
  "settle r (handleRegenerate e s) = Inr s' \<Longrightarrow> wardrobe s' = wardrobe s"
  by (auto simp: handleRegenerate_def settle_def finally_block_def
      split: if_splits sum.splits option.splits)

lemma count_step:
  assumes "countId g (defaultWardrobe e) \<le> 1" and "countId g (wardrobe s) \<le> 1"
    and "settle r (dispatch e op s) = Inr s'"
  shows "countId g (wardrobe s') \<le> 1"
proof (cases op)
  case (GarmentSelect f item)
  with assms(3) have "settle r (handleGarmentSelect e f item s) = Inr s'" by simp
  from count_handleGarmentSelect [OF assms(2) this] show ?thesis .
next
  case (PoseSelect q)
  with assms show ?thesis by (auto dest: wardrobe_handlePoseSelect)
next
  case (ImageAdjustment p sc)
  with assms show ?thesis by (auto dest: wardrobe_handleImageAdjustment)
next
  case Regenerate
  with assms show ?thesis by (auto dest: wardrobe_handleRegenerate)
qed (use assms in \<open>auto simp: handleModelFinalized_def handleStartOver_def handleUndo_def
      handleRedo_def\<close>)

lemma count_run:
  assumes "countId g (defaultWardrobe e) \<le> 1" and "countId g (wardrobe s) \<le> 1"
    and "run e evs s = Inr s'"
  shows "countId g (wardrobe s') \<le> 1"
  using assms(2,3)
proof (induction evs arbitrary: s)
  case Nil
  then show ?case by simp
next
  case (Cons ev evs)
  obtain op r where ev: "ev = (op, r)" by (cases ev)
  from Cons.prems(2) obtain s1 where s1: "settle r (dispatch e op s) = Inr s1"
    and rest: "run e evs s1 = Inr s'"
    unfolding ev by (rule run_Cons_Inr)
  from count_step [OF assms(1) Cons.prems(1) s1] have "countId g (wardrobe s1) \<le> 1" .
  from Cons.IH [OF this rest] show ?case .
qed

text \<open>
  Claim C8.  When the default wardrobe has at most one item with the identifier \<open>g\<close>, so
  has the wardrobe of every state that a sequence of operations reaches from the initial
  state: garments applied with the same identifier, on whatever branch of the history, give
  one wardrobe entry.
\<close>

theorem wardrobe_dedup:
  assumes "run e evs (initial e) = Inr s" and "countId g (defaultWardrobe e) \<le> 1"
  shows "countId g (wardrobe s) \<le> 1"
proof -
  from assms(2) have "countId g (wardrobe (initial e)) \<le> 1"
    by (simp add: initial_def)
  from count_run [OF assms(2) this assms(1)] show ?thesis .
qed

text \<open>The shirt is generated on two branches and stands once in the wardrobe.\<close>

theorem wardrobe_dedup_witness:
  "run env0 twoBranches (initial env0) = Inr twoBranchesEnd
   \<and> countId ''shirt'' (defaultWardrobe env0) \<le> 1
   \<and> wardrobe twoBranchesEnd = [shirt, hat]
   \<and> countId ''shirt'' (wardrobe twoBranchesEnd) \<le> 1"
proof -
  have reached: "run env0 twoBranches (initial env0) = Inr twoBranchesEnd"
    by (simp add: example_defs handler_defs pose_defs)
  have default: "countId ''shirt'' (defaultWardrobe env0) \<le> 1"
    by (simp add: env0_def countId_def)
  have items: "wardrobe twoBranchesEnd = [shirt, hat]"
    by (simp add: twoBranchesEnd_def)
  from wardrobe_dedup [OF reached default] reached default items
  show ?thesis by blast
qed

section \<open>The answer of the service\<close>

lemmas response_defs =
  handleApiResponse_def blockReasonOf_def finishReasonOf_def imagePartOf_def to_string_def
  blocked_def containsImage_def halted_def falsy_def nth_opt_def trim_def is_space_def
  blockedWithImage_def imageResponse_def stoppedResponse_def textResponse_def

lemma imagePartOf_Some: "imagePartOf c = Some p \<Longrightarrow> inlineData p \<noteq> None"
  by (auto simp: imagePartOf_def find_Some_iff split: option.splits)

lemma firstImage_iff:
  "firstImage cs \<noteq> None \<longleftrightarrow>
   list_ex (\<lambda>candidate.
        case content candidate of
          None \<Rightarrow> False
        | Some c \<Rightarrow>
            (case parts c of
               None \<Rightarrow> False
             | Some ps \<Rightarrow> list_ex (\<lambda>part. inlineData part \<noteq> None) ps)) cs"
proof (induction cs)
  case Nil
  show ?case by simp
next
  case (Cons c cs)
  show ?case
  proof (cases "imagePartOf c")
    case None
    then have "\<not> (case content c of None \<Rightarrow> False
        | Some ct \<Rightarrow> (case parts ct of None \<Rightarrow> False
            | Some ps \<Rightarrow> list_ex (\<lambda>part. inlineData part \<noteq> None) ps))"
      by (auto simp: imagePartOf_def find_None_iff list_ex_iff split: option.splits)
    with None Cons.IH show ?thesis by simp
  next
    case (Some p)
    then have "(case content c of None \<Rightarrow> False
        | Some ct \<Rightarrow> (case parts ct of None \<Rightarrow> False
            | Some ps \<Rightarrow> list_ex (\<lambda>part. inlineData part \<noteq> None) ps))"
      by (auto simp: imagePartOf_def find_Some_iff list_ex_iff split: option.splits)
    with Some imagePartOf_Some [OF Some] show ?thesis by auto
  qed
qed

lemma firstImage_containsImage:
  "firstImage (case candidates r of None \<Rightarrow> [] | Some cs \<Rightarrow> cs) \<noteq> None \<longleftrightarrow> containsImage r"
  unfolding containsImage_def by (rule firstImage_iff)

lemma handleApiResponse_examples:
  "handleApiResponse imageResponse = Inr ''data:image/png;base64,AAAA''"
  "handleApiResponse blockedWithImage = Inl (RequestBlocked ''Request was blocked. Reason: SAFETY. '')"
  "handleApiResponse stoppedResponse = Inl (StoppedUnexpectedly
     ''Image generation stopped unexpectedly. Reason: SAFETY. This often relates to safety settings.'')"
  "handleApiResponse textResponse = Inl (NoImage
     (''The AI model did not return an image. The model responded with text: '' @
      [CHR 0x22] @ ''No.'' @ [CHR 0x22]))"
  by (simp_all add: response_defs)

text \<open>
  Claim C9, as the code has it.  \<open>handleApiResponse\<close> returns an image reference exactly
  when the answer has no block reason and some candidate has a part with inline data.  It
  fails with the first message exactly when a block reason is there (whether or not an
  image is there too), with the second exactly when there is no block reason, no image, and
  the first candidate has a finish reason other than \<open>STOP\<close>, and with the third exactly
  when there is no block reason, no image and no such finish reason.  So an answer without
  image and without block reason is a failure.
\<close>

theorem handleApiResponse_contract:
  "((\<exists>img. handleApiResponse r = Inr img) \<longleftrightarrow> \<not> blocked r \<and> containsImage r)
   \<and> ((\<exists>m. handleApiResponse r = Inl (RequestBlocked m)) \<longleftrightarrow> blocked r)
   \<and> ((\<exists>m. handleApiResponse r = Inl (StoppedUnexpectedly m)) \<longleftrightarrow>
        \<not> blocked r \<and> \<not> containsImage r \<and> halted r)
   \<and> ((\<exists>m. handleApiResponse r = Inl (NoImage m)) \<longleftrightarrow>
        \<not> blocked r \<and> \<not> containsImage r \<and> \<not> halted r)"
  using firstImage_containsImage [of r]
  by (auto simp: handleApiResponse_def blocked_def halted_def split: option.splits)

theorem handleApiResponse_contract_witness:
  "\<not> blocked imageResponse \<and> containsImage imageResponse
   \<and> (\<exists>img. handleApiResponse imageResponse = Inr img)
   \<and> blocked blockedWithImage
   \<and> (\<exists>m. handleApiResponse blockedWithImage = Inl (RequestBlocked m))
   \<and> \<not> blocked stoppedResponse \<and> \<not> containsImage stoppedResponse \<and> halted stoppedResponse
   \<and> (\<exists>m. handleApiResponse stoppedResponse = Inl (StoppedUnexpectedly m))
   \<and> \<not> blocked textResponse \<and> \<not> containsImage textResponse \<and> \<not> halted textResponse
   \<and> (\<exists>m. handleApiResponse textResponse = Inl (NoImage m))"
proof -
  have image: "\<not> blocked imageResponse" "containsImage imageResponse"
    by (simp_all add: response_defs)
  have is_blocked: "blocked blockedWithImage"
    by (simp add: response_defs)
  have stopped: "\<not> blocked stoppedResponse" "\<not> containsImage stoppedResponse"
    "halted stoppedResponse"
    by (simp_all add: response_defs)
  have no_image: "\<not> blocked textResponse" "\<not> containsImage textResponse"
    "\<not> halted textResponse"
    by (simp_all add: response_defs)
  from handleApiResponse_contract [of imageResponse] handleApiResponse_contract [of blockedWithImage]
    handleApiResponse_contract [of stoppedResponse] handleApiResponse_contract [of textResponse]
    image is_blocked stopped no_image
  show ?thesis by blast
qed

text \<open>
  Claim C9 as stated fails on an answer that has a block reason and an image: the block
  reason is tested first and no image is returned.
\<close>

theorem handleApiResponse_contract_counterexample:
  "containsImage blockedWithImage
   \<and> handleApiResponse blockedWithImage =
       Inl (RequestBlocked ''Request was blocked. Reason: SAFETY. '')"
  by (simp add: response_defs)

section \<open>An event while a request is pending\<close>

text \<open>
  The sessions above run every operation to its end before the next one starts.
  \<open>handleUndo\<close>, \<open>handleRedo\<close> and \<open>handleStartOver\<close> do not test \<open>isLoading\<close>.
  Were two redos handled while an adjustment started on the first of three layers waits,
  the rest of the adjustment would cut the history after the layer where it started and
  add one to the index of the moment: two layers and the current index 3.
\<close>

lemma settle_resume: "pending h = Some s1 \<Longrightarrow> settle r h = resume r h s1"
  by (cases h) (simp_all add: settle_def)

lemma redo_while_pending:
  "pending (handleImageAdjustment env0 ''Brighter'' None threeLayers) = Some threeLayersBusy
   \<and> handleRedo (handleRedo threeLayersBusy) = threeLayersBusy\<lparr>currentOutfitIndex := 2\<rparr>
   \<and> resume (Inr ''data:n'') (handleImageAdjustment env0 ''Brighter'' None threeLayers)
       (threeLayersBusy\<lparr>currentOutfitIndex := 2\<rparr>) =
     Inr (threeLayers\<lparr>outfitHistory :=
            [baseLayer, \<lparr>garment = None, poseImages = [(poseKey 0, ''data:n'')]\<rparr>],
          currentOutfitIndex := 3\<rparr>)"
  by (simp add: example_defs handler_defs pose_defs)

end
